theory Spec2Isabelle
  imports Complex_Main "HOL-Library.Sublist"
begin

section \<open>The example backend: an in-memory user directory\<close>

text \<open>
  A shallow embedding of \<^verbatim>\<open>examples/backend/main.py\<close>. The module keeps one global,
  the list \<^verbatim>\<open>users_db\<close>; every function of the module is translated to a function that
  takes the current value of that list and returns its result together with the value of
  the list afterwards.
\<close>

subsection \<open>Values of the language\<close>

text \<open>
  A Python \<^verbatim>\<open>str\<close> is a sequence of Unicode code points and \<^verbatim>\<open>len\<close> counts them, so a
  string is a list of code points. \<open>chars\<close> writes a literal of the source.
\<close>

type_synonym str = "nat list"

definition chars :: "string \<Rightarrow> str" where
  "chars s = map of_char s"

text \<open>\<^verbatim>\<open>sub in s\<close> on strings: \<^verbatim>\<open>sub\<close> occurs in \<^verbatim>\<open>s\<close> as a contiguous substring.\<close>

definition contains :: "str \<Rightarrow> str \<Rightarrow> bool" where
  "contains s sub = sublist sub s"

text \<open>
  \<^verbatim>\<open>max(xs, default=d)\<close>: the largest element of \<^verbatim>\<open>xs\<close>; the default is the result
  only when \<^verbatim>\<open>xs\<close> is empty, it does not take part in the comparison.
\<close>

fun py_max :: "int list \<Rightarrow> int \<Rightarrow> int" where
  "py_max [] dflt = dflt"
| "py_max (x # xs) dflt = fold max xs x"

text \<open>
  \<^verbatim>\<open>float(n)\<close> for an integer \<^verbatim>\<open>n\<close>. Floating-point values are modelled by the real
  numbers they denote and the conversion as exact, which it is for every integer of
  magnitude at most \<open>2 ^ 53\<close>; rounding above that bound is not modelled. The only
  integer the module converts is a score, which reaches \<open>2 ^ 53\<close> only for a name
  of more than \<open>9 * 10 ^ 14\<close> characters.
\<close>

definition float :: "int \<Rightarrow> real" where
  "float n = of_int n"

subsection \<open>Data models\<close>

record User =
  id' :: int
  name :: str
  email :: str
  is_active :: bool

record UserCreate =
  name :: str
  email :: str

text \<open>\<^verbatim>\<open>HTTPException(status_code=..., detail=...)\<close>, the one exception the module raises.\<close>

datatype HTTPException = HTTPException (status_code: int) (detail: str)

subsection \<open>In-memory storage\<close>

text \<open>The value of \<^verbatim>\<open>users_db\<close> when the module has been loaded.\<close>

definition users_db :: "User list" where
  "users_db =
     [\<lparr>id' = 1, name = chars ''John Doe'', email = chars ''john@example.com'',
        is_active = True\<rparr>,
      \<lparr>id' = 2, name = chars ''Jane Smith'', email = chars ''jane@example.com'',
        is_active = True\<rparr>]"

subsection \<open>The functions of the module\<close>

definition root :: "User list \<Rightarrow> (str \<times> str) list \<times> User list" where
  "root db = ([(chars ''message'', chars ''CodeFlow Buddy Backend API'')], db)"

definition get_users :: "User list \<Rightarrow> User list \<times> User list" where
  "get_users db = (db, db)"

text \<open>
  The loop of \<^verbatim>\<open>find_user_by_id\<close> over the list, returning at the first record whose id
  is the one asked for.
\<close>

fun find_loop :: "int \<Rightarrow> User list \<Rightarrow> User option" where
  "find_loop user_id [] = None"
| "find_loop user_id (user # rest) =
     (if id' user = user_id then Some user else find_loop user_id rest)"

definition find_user_by_id :: "int \<Rightarrow> User list \<Rightarrow> User option \<times> User list" where
  "find_user_by_id user_id db = (find_loop user_id db, db)"

text \<open>
  \<^verbatim>\<open>if not user\<close> tests the truth value of the result of the search: \<^verbatim>\<open>None\<close> is
  false, and a \<^verbatim>\<open>User\<close> is true whatever its fields hold (the class defines neither
  \<^verbatim>\<open>__bool__\<close> nor \<^verbatim>\<open>__len__\<close>). The raised exception is the left summand.
\<close>

definition get_user :: "int \<Rightarrow> User list \<Rightarrow> (HTTPException + User) \<times> User list" where
  "get_user user_id db =
     (let (user, db1) = find_user_by_id user_id db in
      case user of
        None \<Rightarrow> (Inl (HTTPException 404 (chars ''User not found'')), db1)
      | Some u \<Rightarrow> (Inr u, db1))"

definition create_user :: "UserCreate \<Rightarrow> User list \<Rightarrow> User \<times> User list" where
  "create_user user_data db =
     (let new_id = py_max (map id' db) 0 + 1;
          new_user = \<lparr>id' = new_id, name = UserCreate.name user_data,
                      email = UserCreate.email user_data, is_active = True\<rparr>
      in (new_user, db @ [new_user]))"

definition calculate_user_score :: "User \<Rightarrow> User list \<Rightarrow> real \<times> User list" where
  "calculate_user_score user db =
     (let base_score = int (length (User.name user)) * 10;
          email_bonus = (if contains (User.email user) (chars ''@'') then 5 else 0);
          active_bonus = (if is_active user then 20 else 0)
      in (float (base_score + email_bonus + active_bonus), db))"

subsection \<open>The application\<close>

text \<open>
  The routes the decorators register: a request names the handler and carries its
  argument, the response carries what the handler returned or raised. A body or a path
  parameter of the wrong shape never reaches a handler and is not a request here.
\<close>

datatype request =
    GET_root
  | GET_users
  | GET_user int
  | POST_users UserCreate

datatype response =
    Greeting "(str \<times> str) list"
  | User_list "User list"
  | One_user User
  | Raised HTTPException

fun handle :: "request \<Rightarrow> User list \<Rightarrow> response \<times> User list" where
  "handle GET_root db = (let (r, db1) = root db in (Greeting r, db1))"
| "handle GET_users db = (let (r, db1) = get_users db in (User_list r, db1))"
| "handle (GET_user user_id) db =
     (let (r, db1) = get_user user_id db in
      case r of Inl e \<Rightarrow> (Raised e, db1) | Inr u \<Rightarrow> (One_user u, db1))"
| "handle (POST_users user_data) db =
     (let (r, db1) = create_user user_data db in (One_user r, db1))"

text \<open>A sequence of requests served one after the other, with the responses in order.\<close>

fun run :: "request list \<Rightarrow> User list \<Rightarrow> response list \<times> User list" where
  "run [] db = ([], db)"
| "run (r # rs) db =
     (let (resp, db1) = handle r db; (resps, db2) = run rs db1 in (resp # resps, db2))"

text \<open>The records that the create requests of a served sequence returned, in order.\<close>

fun created :: "request list \<Rightarrow> response list \<Rightarrow> User list" where
  "created (POST_users user_data # rs) (One_user u # resps) = u # created rs resps"
| "created (r # rs) (resp # resps) = created rs resps"
| "created rs resps = []"

text \<open>The bodies of the create requests of a sequence, in order.\<close>

fun posted :: "request list \<Rightarrow> UserCreate list" where
  "posted [] = []"
| "posted (POST_users user_data # rs) = user_data # posted rs"
| "posted (r # rs) = posted rs"

subsection \<open>The invariant of the directory\<close>

text \<open>
  The ids of the records are \<open>1, 2, ...\<close> in the order of the list. It holds of the
  seed records and every handler keeps it.
\<close>

definition ids_upto :: "User list \<Rightarrow> bool" where
  "ids_upto db \<longleftrightarrow> map id' db = [1..int (length db)]"

section \<open>Properties of the built-ins and of the functions\<close>

lemma py_max_eq: "py_max xs d = (if xs = [] then d else Max (set xs))"
proof (cases xs)
  case Nil
  then show ?thesis by simp
next
  case (Cons x ys)
  then show ?thesis using Max.set_eq_fold [of x ys] by simp
qed

lemma contains_single: "contains s [c] \<longleftrightarrow> c \<in> set s"
  unfolding contains_def by (induction s) (auto simp: sublist_Cons_right)

lemma chars_at: "chars ''@'' = [of_char CHR ''@'']"
  by (simp add: chars_def)

lemma find_loop_None: "find_loop i db = None \<longleftrightarrow> (\<forall>u\<in>set db. id' u \<noteq> i)"
  by (induction db) auto

lemma find_loop_Some: "find_loop i db = Some u \<Longrightarrow> u \<in> set db \<and> id' u = i"
  by (induction db) (auto split: if_splits)

lemma find_loop_filter:
  "find_loop i db = (case filter (\<lambda>u. id' u = i) db of [] \<Rightarrow> None | u # rest \<Rightarrow> Some u)"
  by (induction db) auto

lemma fst_create_user:
  "fst (create_user d db) =
     \<lparr>id' = (if db = [] then 1 else Max (id' ` set db) + 1), name = UserCreate.name d,
        email = UserCreate.email d, is_active = True\<rparr>"
  by (simp add: create_user_def Let_def py_max_eq)

lemma snd_create_user: "snd (create_user d db) = db @ [fst (create_user d db)]"
  by (simp add: create_user_def Let_def)

lemma snd_get_user: "snd (get_user i db) = db"
  by (simp add: get_user_def find_user_by_id_def split: option.splits)

subsection \<open>What each route does to the directory\<close>

lemma handle_GET_root: "handle GET_root db = (Greeting (fst (root db)), db)"
  by (simp add: root_def)

lemma handle_GET_users: "handle GET_users db = (User_list db, db)"
  by (simp add: get_users_def)

lemma handle_GET_user:
  "handle (GET_user i) db =
     (case fst (get_user i db) of Inl e \<Rightarrow> Raised e | Inr u \<Rightarrow> One_user u, db)"
  using snd_get_user [of i db] by (cases "get_user i db") (auto split: sum.splits)

lemma handle_POST_users:
  "handle (POST_users d) db =
     (One_user (fst (create_user d db)), db @ [fst (create_user d db)])"
  using snd_create_user [of d db] by (cases "create_user d db") auto

lemmas handle_eqs = handle_GET_root handle_GET_users handle_GET_user handle_POST_users

lemma run_Cons:
  "run (r # rs) db =
     (fst (handle r db) # fst (run rs (snd (handle r db))), snd (run rs (snd (handle r db))))"
  by (simp add: split_def Let_def)

lemma run_appends: "snd (run rs db) = db @ created rs (fst (run rs db))"
proof (induction rs arbitrary: db)
  case Nil
  show ?case by simp
next
  case (Cons r rs)
  show ?case
    by (cases r)
      (simp_all add: run_Cons handle_eqs Cons.IH del: run.simps(2) handle.simps
        split: sum.splits)
qed

lemma created_posted:
  "map (\<lambda>u. (User.name u, User.email u)) (created rs (fst (run rs db))) =
   map (\<lambda>d. (UserCreate.name d, UserCreate.email d)) (posted rs)"
proof (induction rs arbitrary: db)
  case Nil
  show ?case by simp
next
  case (Cons r rs)
  show ?case
    by (cases r)
      (simp_all add: run_Cons handle_eqs Cons.IH fst_create_user
        del: run.simps(2) handle.simps split: sum.splits)
qed

lemma length_created: "length (created rs (fst (run rs db))) = length (posted rs)"
  using arg_cong [OF created_posted [of rs db], of length] by simp

subsection \<open>The invariant is kept\<close>

lemma ids_upto_create:
  assumes "ids_upto db"
  shows "id' (fst (create_user d db)) = int (length db) + 1"
proof (cases "db = []")
  case True
  then show ?thesis by (simp add: fst_create_user)
next
  case False
  have "id' ` set db = set [1..int (length db)]"
    using assms unfolding ids_upto_def by (metis list.set_map)
  moreover have "1 \<le> int (length db)" using False by (cases db) auto
  ultimately have "Max (id' ` set db) = int (length db)"
    by (intro Max_eqI) auto
  with False show ?thesis by (simp add: fst_create_user)
qed

lemma ids_upto_handle: "ids_upto db \<Longrightarrow> ids_upto (snd (handle r db))"
proof (cases r)
  case (POST_users d)
  assume inv: "ids_upto db"
  have "[1..int (length db) + 1] = [1..int (length db)] @ [int (length db) + 1]"
    by (simp add: upto_rec2)
  with inv ids_upto_create [OF inv, of d] POST_users show ?thesis
    by (simp add: handle_eqs ids_upto_def add.commute del: handle.simps)
qed (simp_all add: handle_eqs del: handle.simps)

lemma ids_upto_run: "ids_upto db \<Longrightarrow> ids_upto (snd (run rs db))"
  by (induction rs arbitrary: db)
    (simp_all add: run_Cons ids_upto_handle del: run.simps(2))

lemma ids_upto_seed: "ids_upto users_db"
  by (simp add: ids_upto_def users_db_def upto_rec1)

lemma ids_upto_distinct: "ids_upto db \<Longrightarrow> distinct (map id' db)"
  by (simp add: ids_upto_def)

lemma upto_append: "0 \<le> n \<Longrightarrow> 0 \<le> k \<Longrightarrow> [1..n + k] = [1..n] @ [n + 1..n + k]"
proof (cases "n = 0")
  case True
  then show ?thesis by simp
next
  case False
  assume "0 \<le> n" "0 \<le> k"
  with False show ?thesis using upto_split2 [of 1 n "n + k"] by simp
qed

lemma created_ids:
  assumes "ids_upto db"
  shows "map id' (created rs (fst (run rs db))) =
    [int (length db) + 1..int (length db) + int (length (posted rs))]"
proof -
  let ?cs = "created rs (fst (run rs db))"
  let ?n = "int (length db)" and ?k = "int (length (posted rs))"
  have "map id' (db @ ?cs) = [1..?n + ?k]"
    using ids_upto_run [OF assms, of rs] run_appends [of rs db]
    by (simp add: ids_upto_def length_created)
  moreover have "[1..?n + ?k] = [1..?n] @ [?n + 1..?n + ?k]"
    by (rule upto_append) simp_all
  ultimately show ?thesis using assms by (simp add: ids_upto_def)
qed

subsection \<open>The scenario of the seed state\<close>

text \<open>
  Fetching id 1 returns John's record, fetching id 99 raises the 404, creating Ann returns
  a record with id 3 that is active, and the listing afterwards holds ids 1, 2 and 3.
\<close>

lemma scenario_seed:
  "run [GET_user 1, GET_user 99,
        POST_users \<lparr>name = chars ''Ann'', email = chars ''ann@example.com''\<rparr>, GET_users]
     users_db =
   ([One_user (users_db ! 0),
     Raised (HTTPException 404 (chars ''User not found'')),
     One_user \<lparr>id' = 3, name = chars ''Ann'', email = chars ''ann@example.com'',
                is_active = True\<rparr>,
     User_list (users_db @ [\<lparr>id' = 3, name = chars ''Ann'',
                email = chars ''ann@example.com'', is_active = True\<rparr>])],
    users_db @ [\<lparr>id' = 3, name = chars ''Ann'', email = chars ''ann@example.com'',
                is_active = True\<rparr>])"
  by (simp add: users_db_def get_user_def find_user_by_id_def create_user_def
      get_users_def Let_def)

section \<open>The claims\<close>

text \<open>
  C1. Whatever the directory holds, \<open>create_user\<close> gives the new record the id one
  greater than the largest id among the records of the directory, and the id 1 when the
  directory has no record. The record stored at the end of the directory carries that id.
\<close>

theorem create_user_new_id:
  "id' (fst (create_user user_data db)) =
     (if db = [] then 1 else Max (id' ` set db) + 1) \<and>
   id' (last (snd (create_user user_data db))) = id' (fst (create_user user_data db))"
  by (simp add: fst_create_user snd_create_user)

text \<open>On the seed records the new id is 3, on the empty directory it is 1.\<close>

theorem create_user_new_id_witness:
  "id' (fst (create_user \<lparr>name = chars ''Ann'', email = chars ''ann@example.com''\<rparr>
      users_db)) = 3 \<and>
   id' (fst (create_user \<lparr>name = chars ''Ann'', email = chars ''ann@example.com''\<rparr>
      [])) = 1"
  using
    create_user_new_id
      [of "\<lparr>name = chars ''Ann'', email = chars ''ann@example.com''\<rparr>" users_db]
    create_user_new_id
      [of "\<lparr>name = chars ''Ann'', email = chars ''ann@example.com''\<rparr>" "[]"]
  by (simp add: users_db_def)

text \<open>
  C2. Whatever the directory holds and whatever the id, \<open>get_user\<close> returns the first
  record of the directory whose id is the argument; when some record has that id the
  result is a record of the directory with that id; it raises if and only if no record
  of the directory has that id, and what it raises carries the status code 404.
\<close>

theorem get_user_found_or_404:
  "fst (get_user user_id db) =
     (case filter (\<lambda>u. id' u = user_id) db of
        [] \<Rightarrow> Inl (HTTPException 404 (chars ''User not found''))
      | u # rest \<Rightarrow> Inr u) \<and>
   ((\<exists>u\<in>set db. id' u = user_id) \<longrightarrow>
      (\<exists>u. fst (get_user user_id db) = Inr u \<and> u \<in> set db \<and> id' u = user_id)) \<and>
   ((\<exists>e. fst (get_user user_id db) = Inl e) \<longleftrightarrow> (\<forall>u\<in>set db. id' u \<noteq> user_id)) \<and>
   (\<forall>e. fst (get_user user_id db) = Inl e \<longrightarrow> status_code e = 404)"
proof -
  have eq: "fst (get_user user_id db) =
      (case find_loop user_id db of
         None \<Rightarrow> Inl (HTTPException 404 (chars ''User not found'')) | Some u \<Rightarrow> Inr u)"
    by (simp add: get_user_def find_user_by_id_def split: option.splits)
  show ?thesis
  proof (cases "find_loop user_id db")
    case None
    with eq show ?thesis
      using find_loop_None [of user_id db] find_loop_filter [of user_id db]
      by (auto split: list.splits)
  next
    case (Some u)
    with eq show ?thesis
      using find_loop_Some [OF Some] find_loop_None [of user_id db]
        find_loop_filter [of user_id db]
      by (auto split: list.splits)
  qed
qed

text \<open>
  On the seed records: the first record has id 1 and is the result for id 1, and id 99,
  which no record has, raises the 404.
\<close>

theorem get_user_found_or_404_witness:
  "id' (hd users_db) = 1 \<and> hd users_db \<in> set users_db \<and>
   fst (get_user 1 users_db) = Inr (hd users_db) \<and>
   fst (get_user 99 users_db) = Inl (HTTPException 404 (chars ''User not found''))"
  using get_user_found_or_404 [of 1 users_db] get_user_found_or_404 [of 99 users_db]
  by (simp add: users_db_def)

text \<open>
  C3. For every record, the score is ten times the number of characters of the name,
  plus 5 when the character \<open>@\<close> occurs in the email, plus 20 when the record is
  active, as a floating-point value; the score of John's seed record is 105. The function
  has no failing branch: it is defined by this equation on every record.
\<close>

theorem calculate_user_score_value:
  "fst (calculate_user_score user db) =
     real (length (User.name user)) * 10
       + (if of_char CHR ''@'' \<in> set (User.email user) then 5 else 0)
       + (if is_active user then 20 else 0) \<and>
   fst (calculate_user_score
          \<lparr>id' = 1, name = chars ''John Doe'', email = chars ''john@example.com'',
             is_active = True\<rparr> db) = 105"
proof -
  have general: "fst (calculate_user_score u db) =
     real (length (User.name u)) * 10
       + (if of_char CHR ''@'' \<in> set (User.email u) then 5 else 0)
       + (if is_active u then 20 else 0)" for u
    by (simp add: calculate_user_score_def float_def chars_at contains_single)
  show ?thesis by (simp add: general) (simp add: chars_def)
qed

text \<open>
  C4. From the seed records, after any sequence of requests the ids of the directory are
  pairwise distinct, and the ids given to the records created along the sequence are
  3, 4, ... in the order of the create requests: each one greater by exactly one than
  the one before, one per create request.
\<close>

theorem create_ids_consecutive_distinct:
  "distinct (map id' (snd (run rs users_db))) \<and>
   map id' (created rs (fst (run rs users_db))) = [3..2 + int (length (posted rs))] \<and>
   length (created rs (fst (run rs users_db))) = length (posted rs)"
proof -
  have "length users_db = 2" by (simp add: users_db_def)
  then show ?thesis
    using ids_upto_distinct [OF ids_upto_run [OF ids_upto_seed, of rs]]
      created_ids [OF ids_upto_seed, of rs] length_created [of rs users_db]
    by simp
qed

text \<open>
  C5. Whatever the directory holds, \<open>create_user\<close> builds a record that is active and
  carries the name and the email of the request, appends it at the end of the directory
  and returns that very record.
\<close>

theorem create_user_record:
  "fst (create_user user_data db) =
     \<lparr>id' = py_max (map id' db) 0 + 1, name = UserCreate.name user_data,
        email = UserCreate.email user_data, is_active = True\<rparr> \<and>
   is_active (fst (create_user user_data db)) \<and>
   snd (create_user user_data db) = db @ [fst (create_user user_data db)] \<and>
   last (snd (create_user user_data db)) = fst (create_user user_data db)"
  by (simp add: create_user_def Let_def)

text \<open>
  C6. A request changes the directory exactly when it is a create request, and the
  score function leaves it as it is; one create call makes the directory one record
  longer, the records that were there before staying where and what they were.
\<close>

theorem only_create_mutates:
  "(snd (handle r db) \<noteq> db) = (\<exists>user_data. r = POST_users user_data) \<and>
   snd (calculate_user_score user db) = db \<and>
   snd (create_user user_data db) = db @ [fst (create_user user_data db)] \<and>
   length (snd (create_user user_data db)) = length db + 1 \<and>
   take (length db) (snd (create_user user_data db)) = db"
  by (cases r)
    (simp_all add: handle_eqs snd_create_user calculate_user_score_def Let_def
      del: handle.simps)

text \<open>
  C7. From the seed records, after any sequence of requests the listing is the two seed
  records (ids 1 and 2) followed by the records the create requests returned, in the
  order of the requests; there is one of them for each create request, with the name
  and the email of that request.
\<close>

theorem get_users_all_in_order:
  "fst (get_users (snd (run rs users_db))) =
     users_db @ created rs (fst (run rs users_db)) \<and>
   fst (handle GET_users (snd (run rs users_db))) =
     User_list (users_db @ created rs (fst (run rs users_db))) \<and>
   map id' (take 2 (fst (get_users (snd (run rs users_db))))) = [1, 2] \<and>
   length (created rs (fst (run rs users_db))) = length (posted rs) \<and>
   map User.name (created rs (fst (run rs users_db))) = map UserCreate.name (posted rs) \<and>
   map User.email (created rs (fst (run rs users_db))) = map UserCreate.email (posted rs)"
proof -
  let ?cs = "created rs (fst (run rs users_db))"
  have "map fst (map (\<lambda>u. (User.name u, User.email u)) ?cs) =
      map fst (map (\<lambda>d. (UserCreate.name d, UserCreate.email d)) (posted rs))"
    and "map snd (map (\<lambda>u. (User.name u, User.email u)) ?cs) =
      map snd (map (\<lambda>d. (UserCreate.name d, UserCreate.email d)) (posted rs))"
    by (simp_all only: created_posted)
  then have "map User.name ?cs = map UserCreate.name (posted rs)"
    and "map User.email ?cs = map UserCreate.email (posted rs)"
    by (simp_all add: comp_def)
  moreover have "take 2 (users_db @ xs) = users_db" for xs by (simp add: users_db_def)
  moreover have "map id' users_db = [1, 2]" by (simp add: users_db_def)
  ultimately show ?thesis
    using run_appends [of rs users_db]
    by (simp add: get_users_def length_created handle_eqs del: handle.simps)
qed

text \<open>
  C8. The score of a record does not depend on the directory and computing it leaves the
  directory as it is: two calls one after the other on the same record return the same
  value, also with any sequence of requests served in between.
\<close>

theorem calculate_user_score_pure:
  "fst (calculate_user_score user db) = fst (calculate_user_score user db') \<and>
   snd (calculate_user_score user db) = db \<and>
   (let (v1, db1) = calculate_user_score user db;
        (v2, db2) = calculate_user_score user db1
    in v1 = v2 \<and> db2 = db) \<and>
   fst (calculate_user_score user (snd (run rs db))) = fst (calculate_user_score user db)"
  by (simp add: calculate_user_score_def Let_def)

text \<open>
  C9. Listing the records and fetching a record by id leave the directory as it is,
  contents and order, whatever the id, so also when the fetch raises.
\<close>

theorem reads_do_not_mutate:
  "snd (get_users db) = db \<and>
   snd (find_user_by_id user_id db) = db \<and>
   snd (get_user user_id db) = db \<and>
   snd (handle GET_users db) = db \<and>
   snd (handle (GET_user user_id) db) = db"
  by (simp add: get_users_def find_user_by_id_def snd_get_user handle_eqs
      del: handle.simps)

text \<open>
  C10. The score of every record is the conversion of a natural number, so it is not
  negative; it is 0 exactly when the name is empty, the character \<open>@\<close> does not occur
  in the email and the record is not active.
\<close>

theorem calculate_user_score_nonneg_integer:
  "(\<exists>n::nat. fst (calculate_user_score user db) = float (int n)) \<and>
   0 \<le> fst (calculate_user_score user db) \<and>
   (fst (calculate_user_score user db) = 0 \<longleftrightarrow>
      User.name user = [] \<and> of_char CHR ''@'' \<notin> set (User.email user) \<and>
      \<not> is_active user)"
proof -
  let ?n = "length (User.name user) * 10
       + (if contains (User.email user) (chars ''@'') then 5 else 0)
       + (if is_active user then 20 else 0)"
  have "fst (calculate_user_score user db) = float (int ?n)"
    by (simp add: calculate_user_score_def)
  moreover have "?n = 0 \<longleftrightarrow>
      User.name user = [] \<and> of_char CHR ''@'' \<notin> set (User.email user) \<and>
      \<not> is_active user"
    by (simp add: chars_at contains_single)
  ultimately show ?thesis
    by (metis (no_types, lifting) float_def of_int_0_le_iff of_int_eq_0_iff
        of_nat_0_le_iff of_nat_eq_0_iff)
qed

end
